theory Spec2Isabelle
  imports Complex_Main "HOL-Library.Word" "HOL-Library.Sublist"
begin

section \<open>Values shared by the modules\<close>

text \<open>
  Python \<open>bytes\<close> are lists of 8-bit words, \<open>str\<close> is \<open>string\<close> (code points below 256),
  \<open>float\<close> seconds are reals. A JSON value as \<open>json.loads\<close> produces it is a \<open>json\<close>;
  a Python \<open>dict\<close> with string keys is a map.
\<close>

type_synonym bytes = "8 word list"

datatype json =
    JNull
  | JBool bool
  | JNum real
  | JStr string
  | JArr "json list"
  | JObj "(string \<times> json) list"

text \<open>Python truthiness of a value (\<open>if v:\<close>).\<close>

fun truthy :: "json \<Rightarrow> bool" where
  "truthy JNull = False"
| "truthy (JBool b) = b"
| "truthy (JNum r) = (r \<noteq> 0)"
| "truthy (JStr s) = (s \<noteq> [])"
| "truthy (JArr xs) = (xs \<noteq> [])"
| "truthy (JObj kvs) = (kvs \<noteq> [])"

type_synonym pydict = "string \<rightharpoonup> json"

text \<open>\<open>d.get(k, default)\<close>: the stored value when the key is present, also when it is \<open>None\<close>.\<close>

definition dict_get :: "pydict \<Rightarrow> string \<Rightarrow> json \<Rightarrow> json" where
  "dict_get d k dflt = (case d k of None \<Rightarrow> dflt | Some v \<Rightarrow> v)"

subsection \<open>\<open>str.split()\<close> and \<open>str.strip()\<close>\<close>

text \<open>The characters Python treats as whitespace, among the code points below 256.\<close>

definition is_space :: "char \<Rightarrow> bool" where
  "is_space c = (let n = (of_char c :: nat)
                 in (9 \<le> n \<and> n \<le> 13) \<or> (28 \<le> n \<and> n \<le> 32) \<or> n = 133 \<or> n = 160)"

text \<open>\<open>s.split()\<close> with no argument: the maximal runs of non-whitespace characters.
  The second argument is the word being read, reversed.\<close>

fun split_acc :: "string \<Rightarrow> string \<Rightarrow> string list" where
  "split_acc [] w = (if w = [] then [] else [rev w])"
| "split_acc (c # cs) w =
     (if is_space c then (if w = [] then split_acc cs [] else rev w # split_acc cs [])
      else split_acc cs (c # w))"

definition py_split :: "string \<Rightarrow> string list" where
  "py_split s = split_acc s []"

definition py_strip :: "string \<Rightarrow> string" where
  "py_strip s = rev (dropWhile is_space (rev (dropWhile is_space s)))"

section \<open>modules/config.py and modules/report\_generator.py\<close>

text \<open>
  The values \<open>os.getenv\<close> can return are the environment; the class body of \<open>Config\<close>
  binds exactly the names below (its attributes and its two class methods).
\<close>

datatype py_error = AttributeError string | OSError | OtherError

datatype attr = AStr string | AFloat real | AInt int | AMethod

record os_environ =
  getenv :: "string \<Rightarrow> string \<Rightarrow> string"
  parse_float :: "string \<Rightarrow> real"
  parse_int :: "string \<Rightarrow> int"

definition Config :: "os_environ \<Rightarrow> (string \<times> attr) list" where
  "Config os =
    [(''GROQ_API_KEY'', AStr (getenv os ''GROQ_API_KEY'' '''')),
     (''GOOGLE_API_KEY'', AStr (getenv os ''GOOGLE_API_KEY'' '''')),
     (''DEEPGRAM_API_KEY'', AStr (getenv os ''DEEPGRAM_API_KEY'' '''')),
     (''OPENAI_API_KEY'', AStr (getenv os ''OPENAI_API_KEY'' '''')),
     (''LLM_MODEL'', AStr (getenv os ''LLM_MODEL'' ''llama-3.3-70b-versatile'')),
     (''VISION_MODEL'',
        AStr (getenv os ''VISION_MODEL'' ''meta-llama/llama-4-scout-17b-16e-instruct'')),
     (''DEEPGRAM_MODEL'', AStr (getenv os ''DEEPGRAM_MODEL'' ''nova-2'')),
     (''TTS_PROVIDER'', AStr (getenv os ''TTS_PROVIDER'' ''edge'')),
     (''EDGE_TTS_VOICE'', AStr (getenv os ''EDGE_TTS_VOICE'' ''en-US-GuyNeural'')),
     (''OPENAI_TTS_VOICE'', AStr (getenv os ''OPENAI_TTS_VOICE'' ''alloy'')),
     (''VISION_CHANGE_THRESHOLD'',
        AFloat (parse_float os (getenv os ''VISION_CHANGE_THRESHOLD'' ''0.10''))),
     (''VISION_MIN_INTERVAL'',
        AFloat (parse_float os (getenv os ''VISION_MIN_INTERVAL'' ''3.0''))),
     (''MAX_SLIDES'', AInt (parse_int os (getenv os ''MAX_SLIDES'' ''15''))),
     (''REMEDIATION_THRESHOLD'', AInt (parse_int os (getenv os ''REMEDIATION_THRESHOLD'' ''7''))),
     (''AUDIO_SAMPLE_RATE'', AInt 16000),
     (''AUDIO_CHANNELS'', AInt 1),
     (''SERVER_HOST'', AStr (getenv os ''SERVER_HOST'' ''0.0.0.0'')),
     (''SERVER_PORT'', AInt (parse_int os (getenv os ''SERVER_PORT'' ''8000''))),
     (''validate'', AMethod),
     (''get_status'', AMethod)]"

text \<open>Attribute access \<open>Config.NAME\<close>: a name the class does not bind raises.\<close>

definition getattr :: "(string \<times> attr) list \<Rightarrow> string \<Rightarrow> py_error + attr" where
  "getattr cls name =
     (case map_of cls name of None \<Rightarrow> Inl (AttributeError name) | Some v \<Rightarrow> Inr v)"

text \<open>
  \<open>PDFReportGenerator.__init__(reports_dir=None)\<close>: \<open>reports_dir or Config.REPORTS_DIR\<close>
  reads the attribute when the argument is \<open>None\<close> or empty; \<open>mkdir\<close> may fail on its own.
  The result is the directory of the new generator.
\<close>

definition PDFReportGenerator_init ::
    "os_environ \<Rightarrow> (string \<Rightarrow> bool) \<Rightarrow> string option \<Rightarrow> py_error + string" where
  "PDFReportGenerator_init os mkdir_ok reports_dir =
     (case (case reports_dir of
              Some d \<Rightarrow> (if d \<noteq> [] then Inr (AStr d) else getattr (Config os) ''REPORTS_DIR'')
            | None \<Rightarrow> getattr (Config os) ''REPORTS_DIR'') of
        Inl e \<Rightarrow> Inl e
      | Inr (AStr d) \<Rightarrow> (if mkdir_ok d then Inr d else Inl OSError)
      | Inr _ \<Rightarrow> Inl OtherError)"

text \<open>
  The module-level statements of \<open>server.py\<close> up to the two globals: the imports (which may
  fail), \<open>interview_storage = InterviewHistoryStorage()\<close> (a \<open>mkdir\<close>), then
  \<open>pdf_generator = PDFReportGenerator()\<close>. The result is the pair of directories.
\<close>

definition import_server ::
    "os_environ \<Rightarrow> bool \<Rightarrow> (string \<Rightarrow> bool) \<Rightarrow> py_error + (string \<times> string)" where
  "import_server os imports_ok mkdir_ok =
     (if \<not> imports_ok then Inl OtherError
      else if \<not> mkdir_ok ''interview_history'' then Inl OSError
      else (case PDFReportGenerator_init os mkdir_ok None of
              Inl e \<Rightarrow> Inl e
            | Inr d \<Rightarrow> Inr (''interview_history'', d)))"

section \<open>The collaborators and the clock\<close>

text \<open>
  Everything outside the repository is an oracle of the environment: the wall clock, the
  transcription, evaluation, vision and speech services, PIL's resize, the storage. Each
  oracle takes the number of oracle calls made so far, so that two calls with the same
  arguments may answer differently; \<open>clock n\<close> is what \<open>time.time()\<close> returns when it is
  the \<open>n\<close>-th call.
\<close>

record frame =
  fwidth :: nat
  fheight :: nat
  rgb :: bytes

datatype describe_result = Described string | RateLimited | ApiError

record turn =
  slide :: nat
  transcript :: string
  score :: json
  technical_depth :: json
  clarity :: json
  visual_quality :: json
  is_final_for_topic :: json
  conflict :: json
  conflict_description :: json
  feedback :: json
  question :: json
  topic :: json
  response_type :: json
  turn_screen_context :: string
  timestamp :: real

record env =
  clock :: "nat \<Rightarrow> real"
  transcribe_audio_chunk :: "nat \<Rightarrow> bytes \<Rightarrow> string \<Rightarrow> nat \<Rightarrow> string option"
  brain_evaluate :: "nat \<Rightarrow> string \<Rightarrow> string \<Rightarrow> turn list \<Rightarrow> pydict"
  brain_generate_opening :: "nat \<Rightarrow> string"
  brain_generate_summary :: "nat \<Rightarrow> turn list \<Rightarrow> string list \<Rightarrow> pydict option"
  tts_generate_full_audio :: "nat \<Rightarrow> string \<Rightarrow> bytes option"
  groq_describe :: "nat \<Rightarrow> frame \<Rightarrow> describe_result"
  pil_resize :: "nat \<Rightarrow> nat \<Rightarrow> frame \<Rightarrow> bytes option"
  save_interview :: "nat \<Rightarrow> bool"
  pdf_generate :: "nat \<Rightarrow> bool"

section \<open>modules/vision\_processor.py\<close>

record vision_processor =
  last_frame :: "frame option"
  last_analysis :: string
  last_api_call :: real
  change_threshold :: real
  min_interval :: real

text \<open>\<open>VisionProcessor.__init__\<close>, with the two settings it reads from \<open>Config\<close>.\<close>

definition VisionProcessor_init :: "real \<Rightarrow> real \<Rightarrow> vision_processor" where
  "VisionProcessor_init thr ival =
     \<lparr>last_frame = None, last_analysis = [], last_api_call = 0,
      change_threshold = thr, min_interval = ival\<rparr>"

text \<open>\<open>np.mean(np.abs(a.astype(float) - b.astype(float)))\<close> of two arrays of one shape.\<close>

definition mean_abs_diff :: "bytes \<Rightarrow> bytes \<Rightarrow> real" where
  "mean_abs_diff a b =
     (\<Sum>(x, y)\<leftarrow>zip a b. \<bar>real (unat x) - real (unat y)\<bar>) / real (length a)"

text \<open>
  \<open>_detect_change\<close>. Both frames are resized to width 320 and height 180. An exception
  (the resize failing, or arrays of different shapes in the subtraction) is caught and
  answered by \<open>True\<close>; the mean of an empty array is \<open>nan\<close>, which exceeds nothing.
\<close>

definition detect_change :: "env \<Rightarrow> vision_processor \<Rightarrow> frame \<Rightarrow> bool" where
  "detect_change e v current_frame =
     (case last_frame v of
        None \<Rightarrow> True
      | Some lf \<Rightarrow>
          (case pil_resize e 320 180 current_frame of
             None \<Rightarrow> True
           | Some current_small \<Rightarrow>
               (case pil_resize e 320 180 lf of
                  None \<Rightarrow> True
                | Some last_small \<Rightarrow>
                    if length current_small \<noteq> length last_small then True
                    else if current_small = [] then False
                    else mean_abs_diff current_small last_small / 255 > change_threshold v)))"

text \<open>
  \<open>_analyze_frame\<close>: the text of the vision service, or, when the call raises, the cached
  analysis (rate limiting) or a fixed message (any other error). It never raises.
\<close>

definition analyze_frame :: "env \<Rightarrow> vision_processor \<Rightarrow> nat \<Rightarrow> frame \<Rightarrow> string" where
  "analyze_frame e v n img =
     (case groq_describe e n img of
        Described s \<Rightarrow> s
      | RateLimited \<Rightarrow> last_analysis v
      | ApiError \<Rightarrow> ''Screen content analysis temporarily unavailable'')"

text \<open>
  \<open>process_frame\<close>. The payload is \<open>None\<close> when decoding it raises. The function takes the
  number of oracle calls made so far and returns the new state, the new number of calls
  and the pair \<open>(has_significant_change, analysis)\<close>.
\<close>

definition process_frame ::
    "env \<Rightarrow> vision_processor \<Rightarrow> nat \<Rightarrow> frame option \<Rightarrow> vision_processor \<times> nat \<times> bool \<times> string option" where
  "process_frame e v n payload =
     (case payload of
        None \<Rightarrow> (v, n, False, None)
      | Some frame_array \<Rightarrow>
          if \<not> detect_change e v frame_array then (v, n, False, None)
          else
            let now = clock e n in
            if now - last_api_call v < min_interval v then (v, Suc n, False, None)
            else
              let analysis = analyze_frame e v (Suc n) frame_array in
              (v\<lparr>last_frame := Some frame_array, last_analysis := analysis,
                 last_api_call := now\<rparr>,
               Suc (Suc n), True, Some analysis))"

section \<open>server.py: the session\<close>

text \<open>
  What a session does to the outside is recorded in its trace, in order: the events sent on
  the socket, the calls to the collaborators, the timeout tasks it creates, and each
  \<open>stop\<close> that passes its guard (with its \<open>auto_ended\<close> flag).
\<close>

datatype effect =
    Sent string string
  | TranscribeCall real bytes
  | EvaluateCall string string
  | SpeechCall string
  | OpeningCall
  | SummaryCall
  | SaveCall
  | PdfCall
  | TimerCreated
  | Stopping bool

record session =
  vision :: vision_processor
  is_active :: bool
  is_ai_speaking :: bool
  screen_context :: string
  screen_contexts :: "string list"
  history :: "turn list"
  slide_count :: nat
  audio_chunks :: "bytes list"
  last_transcript_time :: real
  accumulated_transcript :: string
  audio_encoding :: string
  audio_sample_rate :: nat
  last_question_time :: real
  min_question_interval :: real
  pending_response :: bool
  screen_share_active :: bool
  screen_share_lost_time :: "real option"
  screen_reconnect_timeout :: real
  awaiting_screen_reshare :: bool
  is_stopped :: bool
  ticks :: nat
  timers :: nat
  ws_open :: bool
  trace :: "effect list"

text \<open>
  \<open>InterviewSession.__init__\<close>. \<open>ticks\<close> counts the oracle calls made so far, \<open>timers\<close> the
  timeout tasks created and not yet resumed, \<open>ws_open\<close> says that the receive loop of the
  endpoint is still running.
\<close>

definition InterviewSession_init :: "env \<Rightarrow> real \<Rightarrow> real \<Rightarrow> session" where
  "InterviewSession_init e thr ival =
     \<lparr>vision = VisionProcessor_init thr ival,
      is_active = False, is_ai_speaking = False,
      screen_context = [], screen_contexts = [], history = [], slide_count = 0,
      audio_chunks = [], last_transcript_time = clock e 0, accumulated_transcript = [],
      audio_encoding = ''linear16'', audio_sample_rate = 16000,
      last_question_time = 0, min_question_interval = 8, pending_response = False,
      screen_share_active = False, screen_share_lost_time = None,
      screen_reconnect_timeout = 30, awaiting_screen_reshare = False,
      is_stopped = False, ticks = 1, timers = 0, ws_open = True, trace = []\<rparr>"

definition emit :: "effect \<Rightarrow> session \<Rightarrow> session" where
  "emit x s = s\<lparr>trace := trace s @ [x]\<rparr>"

definition tick :: "session \<Rightarrow> session" where
  "tick s = s\<lparr>ticks := Suc (ticks s)\<rparr>"

text \<open>\<open>send_event\<close> reads the clock for the time stamp of the message; a send error is
  swallowed.\<close>

definition send_event :: "string \<Rightarrow> string \<Rightarrow> session \<Rightarrow> session" where
  "send_event event_type payload s = emit (Sent event_type payload) (tick s)"

definition speak_response :: "env \<Rightarrow> string \<Rightarrow> session \<Rightarrow> session" where
  "speak_response e txt s =
     (let s1 = send_event ''status'' ''speaking'' (s\<lparr>is_ai_speaking := True\<rparr>);
          audio_bytes = tts_generate_full_audio e (ticks s1) txt;
          s2 = emit (SpeechCall txt) (tick s1);
          s3 = (case audio_bytes of
                  None \<Rightarrow> s2
                | Some a \<Rightarrow>
                    if a \<noteq> [] then send_event ''audio_end'' [] (send_event ''audio_chunk'' [] s2)
                    else s2)
      in send_event ''status'' ''listening'' (s3\<lparr>is_ai_speaking := False\<rparr>))"

text \<open>The dictionary appended to the history by \<open>generate_response\<close>.\<close>

definition make_turn :: "nat \<Rightarrow> string \<Rightarrow> pydict \<Rightarrow> string \<Rightarrow> real \<Rightarrow> turn" where
  "make_turn n txt evaluation ctx stamp =
     \<lparr>slide = n, transcript = txt,
      score = dict_get evaluation ''score'' (JNum 5),
      technical_depth =
        dict_get evaluation ''technical_depth'' (dict_get evaluation ''score'' (JNum 5)),
      clarity = dict_get evaluation ''clarity'' (dict_get evaluation ''score'' (JNum 5)),
      visual_quality = dict_get evaluation ''visual_quality'' (JNum 5),
      is_final_for_topic = dict_get evaluation ''is_final_for_topic'' (JBool True),
      conflict = dict_get evaluation ''conflict_detected'' (JBool False),
      conflict_description = dict_get evaluation ''conflict_description'' (JStr []),
      feedback = dict_get evaluation ''feedback'' (JStr []),
      question =
        dict_get evaluation ''next_response'' (dict_get evaluation ''next_question'' (JStr [])),
      topic = dict_get evaluation ''topic'' (JStr []),
      response_type = dict_get evaluation ''response_type'' (JStr []),
      turn_screen_context = take 300 ctx,
      timestamp = stamp\<rparr>"

text \<open>
  \<open>generate_response\<close>, the body under the response lock. The pacing test comes first and
  returns before the brain is asked. A truthy response text that is not a string has no
  \<open>strip\<close>: the exception handler sends an error event.
\<close>

definition generate_response :: "env \<Rightarrow> string \<Rightarrow> session \<Rightarrow> session" where
  "generate_response e txt s =
     (let now = clock e (ticks s);
          s0 = tick s;
          time_since_last = now - last_question_time s0
      in
      if time_since_last < min_question_interval s0 \<and> last_question_time s0 > 0 then s0
      else
        let s1 = send_event ''status'' ''thinking'' s0;
            evaluation = brain_evaluate e (ticks s1) txt (screen_context s1) (history s1);
            s2 = emit (EvaluateCall txt (screen_context s1)) (tick s1)
        in
        if \<not> truthy (dict_get evaluation ''presenter_asked_question'' JNull)
           \<and> dict_get evaluation ''response_type'' JNull = JStr ''proceed''
           \<and> pending_response s2
        then send_event ''status'' ''listening'' s2
        else
          let s3 = s2\<lparr>slide_count := slide_count s2 + 1\<rparr>;
              s4 = tick (s3\<lparr>history := history s3 @
                     [make_turn (slide_count s3) txt evaluation (screen_context s3)
                        (clock e (ticks s3))]\<rparr>);
              s5 = send_event ''evaluation'' [] s4;
              response_text =
                dict_get evaluation ''next_response''
                  (dict_get evaluation ''next_question'' (JStr []))
          in
          (case response_text of
             JStr r \<Rightarrow>
               if r \<noteq> [] \<and> py_strip r \<noteq> [] then
                 let s6 = speak_response e r s5
                 in (tick s6)\<lparr>last_question_time := clock e (ticks s6),
                              pending_response := True\<rparr>
               else send_event ''status'' ''listening'' s5
           | v \<Rightarrow>
               if truthy v then
                 send_event ''status'' ''listening'' (send_event ''error'' [] s5)
               else send_event ''status'' ''listening'' s5))"

definition finalize_transcript :: "env \<Rightarrow> session \<Rightarrow> session" where
  "finalize_transcript e s =
     (if py_strip (accumulated_transcript s) = [] then s
      else
        let txt = py_strip (accumulated_transcript s);
            s1 = s\<lparr>accumulated_transcript := []\<rparr>;
            s2 = send_event ''transcript_final'' txt s1
        in generate_response e txt s2)"

definition process_accumulated_audio :: "env \<Rightarrow> session \<Rightarrow> session" where
  "process_accumulated_audio e s =
     (if audio_chunks s = [] then s
      else
        let combined_audio = concat (audio_chunks s);
            now = clock e (ticks s);
            s1 = tick (s\<lparr>audio_chunks := [], last_transcript_time := now\<rparr>)
        in
        if length combined_audio < 16000 then s1
        else
          let result = transcribe_audio_chunk e (ticks s1) combined_audio
                         (audio_encoding s1) (audio_sample_rate s1);
              s2 = emit (TranscribeCall now combined_audio) (tick s1)
          in
          (case result of
             None \<Rightarrow> s2
           | Some t \<Rightarrow>
               if t = [] then s2
               else
                 let s3 = send_event ''transcript_interim'' t s2;
                     s4 = s3\<lparr>accumulated_transcript := accumulated_transcript s3 @ '' '' @ t\<rparr>;
                     word_count = length (py_split (accumulated_transcript s4))
                 in if word_count \<ge> 8 then finalize_transcript e s4 else s4))"

text \<open>\<open>handle_audio_chunk\<close>; the audio is \<open>None\<close> when decoding the base64 text raises.\<close>

definition handle_audio_chunk ::
    "env \<Rightarrow> bytes option \<Rightarrow> string \<Rightarrow> nat \<Rightarrow> session \<Rightarrow> session" where
  "handle_audio_chunk e audio encoding sample_rate s =
     (if \<not> is_active s then s
      else
        (case audio of
           None \<Rightarrow> s
         | Some audio_bytes \<Rightarrow>
             let s1 = s\<lparr>audio_chunks := audio_chunks s @ [audio_bytes],
                        audio_encoding := encoding, audio_sample_rate := sample_rate\<rparr>;
                 now = clock e (ticks s1);
                 s2 = tick s1
             in
             if now - last_transcript_time s2 \<ge> 3 \<and> audio_chunks s2 \<noteq> []
             then process_accumulated_audio e s2
             else s2))"

definition handle_video_frame :: "env \<Rightarrow> frame option \<Rightarrow> session \<Rightarrow> session" where
  "handle_video_frame e payload s =
     (if \<not> is_active s then s
      else
        (case process_frame e (vision s) (ticks s) payload of
           (v, n, has_change, analysis) \<Rightarrow>
             let s1 = s\<lparr>vision := v, ticks := n\<rparr>
             in
             (case analysis of
                None \<Rightarrow> s1
              | Some a \<Rightarrow>
                  if has_change \<and> a \<noteq> [] then
                    send_event ''screen_update''
                      (if length a > 200 then take 200 a @ ''...'' else a)
                      (s1\<lparr>screen_context := a, screen_contexts := screen_contexts s1 @ [a]\<rparr>)
                  else s1)))"

definition start :: "env \<Rightarrow> session \<Rightarrow> session" where
  "start e s =
     (let s1 = send_event ''status'' ''thinking''
                 (s\<lparr>is_active := True, screen_share_active := True\<rparr>);
          opening = brain_generate_opening e (ticks s1);
          s2 = emit OpeningCall (tick s1);
          s3 = send_event ''ai_message'' opening s2;
          s4 = speak_response e opening s3
      in (tick s4)\<lparr>last_question_time := clock e (ticks s4)\<rparr>)"

definition lost_message :: string where
  "lost_message = ''I noticed you stopped sharing your screen. Please reshare to continue the interview, or click End Interview to finish.''"

definition closing_message :: string where
  "closing_message = ''Since the screen share wasn't restored, I'll wrap up the interview now. Thank you for your presentation!''"

definition restored_message :: string where
  "restored_message = ''Great, I can see your screen again! Please continue where you left off.''"

definition handle_screen_share_lost :: "env \<Rightarrow> session \<Rightarrow> session" where
  "handle_screen_share_lost e s =
     (if \<not> is_active s \<or> awaiting_screen_reshare s then s
      else
        let s1 = (tick s)\<lparr>screen_share_active := False,
                          screen_share_lost_time := Some (clock e (ticks s)),
                          awaiting_screen_reshare := True\<rparr>;
            s2 = send_event ''screen_share_lost'' lost_message s1;
            s3 = send_event ''ai_message'' lost_message s2;
            s4 = speak_response e lost_message s3
        in emit TimerCreated (s4\<lparr>timers := Suc (timers s4)\<rparr>))"

definition handle_screen_share_restored :: "env \<Rightarrow> session \<Rightarrow> session" where
  "handle_screen_share_restored e s =
     (if \<not> awaiting_screen_reshare s then s
      else
        let s1 = s\<lparr>screen_share_active := True, awaiting_screen_reshare := False,
                   screen_share_lost_time := None\<rparr>;
            s2 = send_event ''screen_share_restored'' restored_message s1;
            s3 = send_event ''ai_message'' restored_message s2
        in speak_response e restored_message s3)"

text \<open>
  \<open>_generate_and_send_report\<close>: the summary of the brain is the report; a failure of the
  summary or of the storage is answered by a degraded \<open>interview_complete\<close>, a failure of
  the PDF only leaves out \<open>report_ready\<close>.
\<close>

definition generate_and_send_report :: "env \<Rightarrow> session \<Rightarrow> session" where
  "generate_and_send_report e s =
     (let s1 = send_event ''status'' ''thinking'' s;
          s2 = send_event ''ai_message'' ''Generating your report...'' s1;
          summary = brain_generate_summary e (ticks s2) (history s2) (screen_contexts s2);
          s3 = emit SummaryCall (tick s2)
      in
      (case summary of
         None \<Rightarrow> send_event ''interview_complete'' ''Report generation error'' s3
       | Some sm \<Rightarrow>
           let saved = save_interview e (ticks s3);
               s4 = emit SaveCall (tick s3)
           in
           if \<not> saved then send_event ''interview_complete'' ''Report generation error'' s4
           else
             let pdf_path = pdf_generate e (ticks s4);
                 s5 = emit PdfCall (tick s4);
                 s6 = (if pdf_path then send_event ''report_ready'' [] s5 else s5)
             in send_event ''interview_complete'' [] s6))"

text \<open>
  \<open>stop\<close>. The parameter \<open>generate_report\<close> is never read. The remaining audio and text are
  flushed after the flags are set, and the history is tested after the flush.
\<close>

definition stop :: "env \<Rightarrow> bool \<Rightarrow> session \<Rightarrow> session" where
  "stop e auto_ended s =
     (if \<not> is_active s \<or> is_stopped s then s
      else
        let s1 = emit (Stopping auto_ended)
                   (s\<lparr>is_active := False, is_stopped := True,
                      awaiting_screen_reshare := False\<rparr>);
            s2 = (if audio_chunks s1 \<noteq> [] then process_accumulated_audio e s1 else s1);
            s3 = (if py_strip (accumulated_transcript s2) \<noteq> []
                  then finalize_transcript e s2 else s2);
            s4 = (if last_question_time s3 \<noteq> 0 then tick s3 else s3)
        in
        if auto_ended \<and> history s4 \<noteq> [] then generate_and_send_report e s4
        else send_event ''interview_stopped'' [] s4)"

text \<open>\<open>_screen_share_timeout_checker\<close>, from the point where its sleep returns.\<close>

definition screen_share_timeout_checker :: "env \<Rightarrow> session \<Rightarrow> session" where
  "screen_share_timeout_checker e s =
     (if awaiting_screen_reshare s \<and> is_active s then
        let s1 = send_event ''ai_message'' closing_message s;
            s2 = speak_response e closing_message s1
        in stop e True s2
      else s)"

definition generate_report_on_demand :: "env \<Rightarrow> session \<Rightarrow> session" where
  "generate_report_on_demand e s =
     (if history s = [] then send_event ''interview_complete'' ''No content to evaluate.'' s
      else generate_and_send_report e s)"

subsection \<open>The endpoint\<close>

text \<open>
  What the session task can meet: a message of the socket (of a known type, or anything
  else), the receive timeout, the disconnect, which leaves the loop and runs the final
  \<open>stop\<close>, and a timeout task resuming after its sleep. Handlers are taken as a whole:
  the model has no interleaving inside one handler.
\<close>

datatype message =
    Audio "bytes option" string nat
  | Video "frame option"
  | ScreenShareLost
  | ScreenShareRestored
  | GenerateReport
  | StopMsg
  | UserSpeaking
  | Unknown
  | ReceiveTimeout
  | Disconnect
  | TimerFires

fun receive :: "env \<Rightarrow> message \<Rightarrow> session \<Rightarrow> session" where
  "receive e (Audio a encoding sample_rate) s = handle_audio_chunk e a encoding sample_rate s"
| "receive e (Video f) s =
     (let s1 = (if awaiting_screen_reshare s then handle_screen_share_restored e s else s)
      in handle_video_frame e f (s1\<lparr>screen_share_active := True\<rparr>))"
| "receive e ScreenShareLost s = handle_screen_share_lost e s"
| "receive e ScreenShareRestored s = handle_screen_share_restored e s"
| "receive e GenerateReport s = generate_report_on_demand e s"
| "receive e StopMsg s = stop e False s"
| "receive e UserSpeaking s =
     (if is_ai_speaking s then (send_event ''stop_audio'' [] s)\<lparr>is_ai_speaking := False\<rparr>
      else s)"
| "receive e Unknown s = s"
| "receive e ReceiveTimeout s = send_event ''keepalive'' [] s"
| "receive e Disconnect s = (stop e False s)\<lparr>ws_open := False\<rparr>"
| "receive e TimerFires s = s"

definition on_event :: "env \<Rightarrow> message \<Rightarrow> session \<Rightarrow> session" where
  "on_event e m s =
     (if m = TimerFires then
        (if timers s = 0 then s
         else screen_share_timeout_checker e (s\<lparr>timers := timers s - 1\<rparr>))
      else if ws_open s then receive e m s
      else s)"

text \<open>\<open>websocket_interview\<close>: a new session is started, then the events are served in order.\<close>

definition websocket_interview :: "env \<Rightarrow> real \<Rightarrow> real \<Rightarrow> message list \<Rightarrow> session" where
  "websocket_interview e thr ival ms =
     foldl (\<lambda>s m. on_event e m s) (start e (InterviewSession_init e thr ival)) ms"

section \<open>Observers of a trace\<close>

fun stop_flag :: "effect \<Rightarrow> bool option" where
  "stop_flag (Stopping b) = Some b"
| "stop_flag _ = None"

fun flush_of :: "effect \<Rightarrow> (real \<times> bytes) option" where
  "flush_of (TranscribeCall t b) = Some (t, b)"
| "flush_of _ = None"

fun eval_of :: "effect \<Rightarrow> string option" where
  "eval_of (EvaluateCall txt ctx) = Some txt"
| "eval_of _ = None"

fun summary_of :: "effect \<Rightarrow> unit option" where
  "summary_of SummaryCall = Some ()"
| "summary_of _ = None"

fun final_of :: "effect \<Rightarrow> string option" where
  "final_of (Sent ty p) = (if ty = ''transcript_final'' then Some p else None)"
| "final_of _ = None"

text \<open>The \<open>auto_ended\<close> flags of the terminations, the transcription calls with their flush
  times, the transcripts handed to the brain, the report generations and the finalized
  transcripts of a trace, each in order.\<close>

definition stop_flags :: "effect list \<Rightarrow> bool list" where
  "stop_flags tr = List.map_filter stop_flag tr"

definition flushes :: "effect list \<Rightarrow> (real \<times> bytes) list" where
  "flushes tr = List.map_filter flush_of tr"

definition evaluations :: "effect list \<Rightarrow> string list" where
  "evaluations tr = List.map_filter eval_of tr"

definition summaries :: "effect list \<Rightarrow> unit list" where
  "summaries tr = List.map_filter summary_of tr"

definition finals :: "effect list \<Rightarrow> string list" where
  "finals tr = List.map_filter final_of tr"

section \<open>Predicates of the statements and of the proofs\<close>


text \<open>The events of the socket that carry an audio chunk.\<close>

fun is_audio :: "message \<Rightarrow> bool" where
  "is_audio (Audio a encoding sample_rate) = True"
| "is_audio _ = False"


text \<open>
  The state of the transcription buffer is in order when the time of the last flush is a
  past reading of the clock, the transcription calls made so far belong to flushes at least
  3 seconds apart and not later than the last flush, and each was given at least 16000
  bytes.
\<close>

definition flush_inv :: "env \<Rightarrow> session \<Rightarrow> bool" where
  "flush_inv e s \<longleftrightarrow>
     (\<exists>k<ticks s. last_transcript_time s = clock e k)
     \<and> sorted_wrt (\<lambda>p q. fst p + 3 \<le> fst q) (flushes (trace s))
     \<and> (\<forall>p \<in> set (flushes (trace s)).
           fst p \<le> last_transcript_time s \<and> 16000 \<le> length (snd p))"



text \<open>\<open>appended h c h' c'\<close>: the history \<open>h'\<close> with slide counter \<open>c'\<close> comes from the history
  \<open>h\<close> with slide counter \<open>c\<close> by appending turns numbered from \<open>c + 1\<close> on.\<close>

definition appended :: "turn list \<Rightarrow> nat \<Rightarrow> turn list \<Rightarrow> nat \<Rightarrow> bool" where
  "appended h c h' c' \<longleftrightarrow>
     (\<exists>ts. h' = h @ ts \<and> c' = c + length ts \<and> map slide ts = [Suc c..<Suc (c + length ts)])"

section \<open>A concrete environment\<close>

text \<open>
  An environment in which every definition can be run: the clock advances by one second per
  oracle call, the presenter always asks the interviewer a direct question, and the vision
  service is rate limited.
\<close>

definition demo_env :: env where
  "demo_env =
     \<lparr>clock = (\<lambda>n. 1000 + real n),
      transcribe_audio_chunk =
        (\<lambda>_ _ _ _. Some ''so this slide shows the overall system design now''),
      brain_evaluate = (\<lambda>_ _ _ _.
         [''presenter_asked_question'' \<mapsto> JBool True,
          ''next_response'' \<mapsto> JStr ''Yes, please go on.'']),
      brain_generate_opening = (\<lambda>_. ''Welcome.''),
      brain_generate_summary = (\<lambda>_ _ _. Some Map.empty),
      tts_generate_full_audio = (\<lambda>_ _. Some [1]),
      groq_describe = (\<lambda>_ _. RateLimited),
      pil_resize = (\<lambda>_ _ f. Some (rgb f)),
      save_interview = (\<lambda>_. True),
      pdf_generate = (\<lambda>_. True)\<rparr>"




text \<open>A started session holding one second of silence in its audio buffer.\<close>

definition demo_flush :: session where
  "demo_flush =
     (start demo_env (InterviewSession_init demo_env (1 / 10) 3))
       \<lparr>audio_chunks := [replicate 16000 0]\<rparr>"


section \<open>What each operation leaves unchanged\<close>

lemmas basic_defs = send_event_def emit_def tick_def Let_def

lemma emit_keeps [simp]:
  "vision (emit x s) = vision s"
  "is_active (emit x s) = is_active s"
  "is_ai_speaking (emit x s) = is_ai_speaking s"
  "screen_context (emit x s) = screen_context s"
  "screen_contexts (emit x s) = screen_contexts s"
  "history (emit x s) = history s"
  "slide_count (emit x s) = slide_count s"
  "audio_chunks (emit x s) = audio_chunks s"
  "last_transcript_time (emit x s) = last_transcript_time s"
  "accumulated_transcript (emit x s) = accumulated_transcript s"
  "audio_encoding (emit x s) = audio_encoding s"
  "audio_sample_rate (emit x s) = audio_sample_rate s"
  "last_question_time (emit x s) = last_question_time s"
  "min_question_interval (emit x s) = min_question_interval s"
  "pending_response (emit x s) = pending_response s"
  "screen_share_active (emit x s) = screen_share_active s"
  "screen_share_lost_time (emit x s) = screen_share_lost_time s"
  "screen_reconnect_timeout (emit x s) = screen_reconnect_timeout s"
  "awaiting_screen_reshare (emit x s) = awaiting_screen_reshare s"
  "is_stopped (emit x s) = is_stopped s"
  "ticks (emit x s) = ticks s"
  "timers (emit x s) = timers s"
  "ws_open (emit x s) = ws_open s"
  by (simp_all add: emit_def)

lemma trace_emit [simp]: "trace (emit x s) = trace s @ [x]"
  by (simp add: emit_def)

lemma tick_keeps [simp]:
  "vision (tick s) = vision s"
  "is_active (tick s) = is_active s"
  "is_ai_speaking (tick s) = is_ai_speaking s"
  "screen_context (tick s) = screen_context s"
  "screen_contexts (tick s) = screen_contexts s"
  "history (tick s) = history s"
  "slide_count (tick s) = slide_count s"
  "audio_chunks (tick s) = audio_chunks s"
  "last_transcript_time (tick s) = last_transcript_time s"
  "accumulated_transcript (tick s) = accumulated_transcript s"
  "audio_encoding (tick s) = audio_encoding s"
  "audio_sample_rate (tick s) = audio_sample_rate s"
  "last_question_time (tick s) = last_question_time s"
  "min_question_interval (tick s) = min_question_interval s"
  "pending_response (tick s) = pending_response s"
  "screen_share_active (tick s) = screen_share_active s"
  "screen_share_lost_time (tick s) = screen_share_lost_time s"
  "screen_reconnect_timeout (tick s) = screen_reconnect_timeout s"
  "awaiting_screen_reshare (tick s) = awaiting_screen_reshare s"
  "is_stopped (tick s) = is_stopped s"
  "timers (tick s) = timers s"
  "ws_open (tick s) = ws_open s"
  "trace (tick s) = trace s"
  by (simp_all add: tick_def)

lemma ticks_tick [simp]: "ticks (tick s) = Suc (ticks s)"
  by (simp add: tick_def)

lemma send_event_keeps [simp]:
  "vision (send_event ty p s) = vision s"
  "is_active (send_event ty p s) = is_active s"
  "is_ai_speaking (send_event ty p s) = is_ai_speaking s"
  "screen_context (send_event ty p s) = screen_context s"
  "screen_contexts (send_event ty p s) = screen_contexts s"
  "history (send_event ty p s) = history s"
  "slide_count (send_event ty p s) = slide_count s"
  "audio_chunks (send_event ty p s) = audio_chunks s"
  "last_transcript_time (send_event ty p s) = last_transcript_time s"
  "accumulated_transcript (send_event ty p s) = accumulated_transcript s"
  "audio_encoding (send_event ty p s) = audio_encoding s"
  "audio_sample_rate (send_event ty p s) = audio_sample_rate s"
  "last_question_time (send_event ty p s) = last_question_time s"
  "min_question_interval (send_event ty p s) = min_question_interval s"
  "pending_response (send_event ty p s) = pending_response s"
  "screen_share_active (send_event ty p s) = screen_share_active s"
  "screen_share_lost_time (send_event ty p s) = screen_share_lost_time s"
  "screen_reconnect_timeout (send_event ty p s) = screen_reconnect_timeout s"
  "awaiting_screen_reshare (send_event ty p s) = awaiting_screen_reshare s"
  "is_stopped (send_event ty p s) = is_stopped s"
  "timers (send_event ty p s) = timers s"
  "ws_open (send_event ty p s) = ws_open s"
  by (simp_all add: send_event_def)

lemma send_event_ticks_trace [simp]:
  "ticks (send_event ty p s) = Suc (ticks s)"
  "trace (send_event ty p s) = trace s @ [Sent ty p]"
  by (simp_all add: send_event_def)

lemma speak_response_keeps [simp]:
  "vision (speak_response e txt s) = vision s"
  "is_active (speak_response e txt s) = is_active s"
  "screen_context (speak_response e txt s) = screen_context s"
  "screen_contexts (speak_response e txt s) = screen_contexts s"
  "history (speak_response e txt s) = history s"
  "slide_count (speak_response e txt s) = slide_count s"
  "audio_chunks (speak_response e txt s) = audio_chunks s"
  "last_transcript_time (speak_response e txt s) = last_transcript_time s"
  "accumulated_transcript (speak_response e txt s) = accumulated_transcript s"
  "audio_encoding (speak_response e txt s) = audio_encoding s"
  "audio_sample_rate (speak_response e txt s) = audio_sample_rate s"
  "last_question_time (speak_response e txt s) = last_question_time s"
  "min_question_interval (speak_response e txt s) = min_question_interval s"
  "pending_response (speak_response e txt s) = pending_response s"
  "screen_share_active (speak_response e txt s) = screen_share_active s"
  "screen_share_lost_time (speak_response e txt s) = screen_share_lost_time s"
  "screen_reconnect_timeout (speak_response e txt s) = screen_reconnect_timeout s"
  "awaiting_screen_reshare (speak_response e txt s) = awaiting_screen_reshare s"
  "is_stopped (speak_response e txt s) = is_stopped s"
  "timers (speak_response e txt s) = timers s"
  "ws_open (speak_response e txt s) = ws_open s"
  by (simp_all add: speak_response_def Let_def split: option.splits)

lemma map_filter_append [simp]:
  "List.map_filter f (xs @ ys) = List.map_filter f xs @ List.map_filter f ys"
  by (simp add: List.map_filter_def)

lemmas obs_defs = stop_flags_def flushes_def evaluations_def summaries_def finals_def

lemma obs_append [simp]:
  "stop_flags (xs @ ys) = stop_flags xs @ stop_flags ys"
  "flushes (xs @ ys) = flushes xs @ flushes ys"
  "evaluations (xs @ ys) = evaluations xs @ evaluations ys"
  "summaries (xs @ ys) = summaries xs @ summaries ys"
  "finals (xs @ ys) = finals xs @ finals ys"
  by (simp_all add: obs_defs)

lemma obs_Cons [simp]:
  "stop_flags (x # xs) = (case stop_flag x of None \<Rightarrow> stop_flags xs | Some b \<Rightarrow> b # stop_flags xs)"
  "flushes (x # xs) = (case flush_of x of None \<Rightarrow> flushes xs | Some b \<Rightarrow> b # flushes xs)"
  "evaluations (x # xs) = (case eval_of x of None \<Rightarrow> evaluations xs | Some b \<Rightarrow> b # evaluations xs)"
  "summaries (x # xs) = (case summary_of x of None \<Rightarrow> summaries xs | Some b \<Rightarrow> b # summaries xs)"
  "finals (x # xs) = (case final_of x of None \<Rightarrow> finals xs | Some b \<Rightarrow> b # finals xs)"
  unfolding obs_defs by simp_all

lemma obs_Nil [simp]:
  "stop_flags [] = []" "flushes [] = []" "evaluations [] = []" "summaries [] = []"
  "finals [] = []"
  by (simp_all add: obs_defs)

lemma speak_response_other [simp]:
  "is_ai_speaking (speak_response e txt s) = False"
  "ticks s < ticks (speak_response e txt s)"
  by (simp_all add: speak_response_def Let_def split: option.splits)

lemma speak_response_obs [simp]:
  "stop_flags (trace (speak_response e txt s)) = stop_flags (trace s)"
  "flushes (trace (speak_response e txt s)) = flushes (trace s)"
  "evaluations (trace (speak_response e txt s)) = evaluations (trace s)"
  "summaries (trace (speak_response e txt s)) = summaries (trace s)"
  "finals (trace (speak_response e txt s)) = finals (trace s)"
  by (simp_all add: speak_response_def Let_def split: option.splits)

lemma generate_response_keeps [simp]:
  "vision (generate_response e txt s) = vision s"
  "is_active (generate_response e txt s) = is_active s"
  "screen_context (generate_response e txt s) = screen_context s"
  "screen_contexts (generate_response e txt s) = screen_contexts s"
  "audio_chunks (generate_response e txt s) = audio_chunks s"
  "last_transcript_time (generate_response e txt s) = last_transcript_time s"
  "accumulated_transcript (generate_response e txt s) = accumulated_transcript s"
  "audio_encoding (generate_response e txt s) = audio_encoding s"
  "audio_sample_rate (generate_response e txt s) = audio_sample_rate s"
  "min_question_interval (generate_response e txt s) = min_question_interval s"
  "screen_share_active (generate_response e txt s) = screen_share_active s"
  "screen_share_lost_time (generate_response e txt s) = screen_share_lost_time s"
  "screen_reconnect_timeout (generate_response e txt s) = screen_reconnect_timeout s"
  "awaiting_screen_reshare (generate_response e txt s) = awaiting_screen_reshare s"
  "is_stopped (generate_response e txt s) = is_stopped s"
  "timers (generate_response e txt s) = timers s"
  "ws_open (generate_response e txt s) = ws_open s"
  by (simp_all add: generate_response_def Let_def split: json.splits)


lemma generate_response_obs [simp]:
  "stop_flags (trace (generate_response e txt s)) = stop_flags (trace s)"
  "flushes (trace (generate_response e txt s)) = flushes (trace s)"
  "summaries (trace (generate_response e txt s)) = summaries (trace s)"
  "finals (trace (generate_response e txt s)) = finals (trace s)"
  by (simp_all add: generate_response_def Let_def split: json.splits)


lemma finalize_transcript_keeps [simp]:
  "vision (finalize_transcript e s) = vision s"
  "is_active (finalize_transcript e s) = is_active s"
  "screen_context (finalize_transcript e s) = screen_context s"
  "screen_contexts (finalize_transcript e s) = screen_contexts s"
  "audio_chunks (finalize_transcript e s) = audio_chunks s"
  "last_transcript_time (finalize_transcript e s) = last_transcript_time s"
  "audio_encoding (finalize_transcript e s) = audio_encoding s"
  "audio_sample_rate (finalize_transcript e s) = audio_sample_rate s"
  "min_question_interval (finalize_transcript e s) = min_question_interval s"
  "screen_share_active (finalize_transcript e s) = screen_share_active s"
  "screen_share_lost_time (finalize_transcript e s) = screen_share_lost_time s"
  "screen_reconnect_timeout (finalize_transcript e s) = screen_reconnect_timeout s"
  "awaiting_screen_reshare (finalize_transcript e s) = awaiting_screen_reshare s"
  "is_stopped (finalize_transcript e s) = is_stopped s"
  "timers (finalize_transcript e s) = timers s"
  "ws_open (finalize_transcript e s) = ws_open s"
  by (simp_all add: finalize_transcript_def Let_def)

lemma process_accumulated_audio_keeps [simp]:
  "vision (process_accumulated_audio e s) = vision s"
  "is_active (process_accumulated_audio e s) = is_active s"
  "screen_context (process_accumulated_audio e s) = screen_context s"
  "screen_contexts (process_accumulated_audio e s) = screen_contexts s"
  "audio_encoding (process_accumulated_audio e s) = audio_encoding s"
  "audio_sample_rate (process_accumulated_audio e s) = audio_sample_rate s"
  "min_question_interval (process_accumulated_audio e s) = min_question_interval s"
  "screen_share_active (process_accumulated_audio e s) = screen_share_active s"
  "screen_share_lost_time (process_accumulated_audio e s) = screen_share_lost_time s"
  "screen_reconnect_timeout (process_accumulated_audio e s) = screen_reconnect_timeout s"
  "awaiting_screen_reshare (process_accumulated_audio e s) = awaiting_screen_reshare s"
  "is_stopped (process_accumulated_audio e s) = is_stopped s"
  "timers (process_accumulated_audio e s) = timers s"
  "ws_open (process_accumulated_audio e s) = ws_open s"
  by (simp_all add: process_accumulated_audio_def Let_def split: option.splits)

lemma generate_and_send_report_keeps [simp]:
  "vision (generate_and_send_report e s) = vision s"
  "is_active (generate_and_send_report e s) = is_active s"
  "is_ai_speaking (generate_and_send_report e s) = is_ai_speaking s"
  "screen_context (generate_and_send_report e s) = screen_context s"
  "screen_contexts (generate_and_send_report e s) = screen_contexts s"
  "history (generate_and_send_report e s) = history s"
  "slide_count (generate_and_send_report e s) = slide_count s"
  "audio_chunks (generate_and_send_report e s) = audio_chunks s"
  "last_transcript_time (generate_and_send_report e s) = last_transcript_time s"
  "accumulated_transcript (generate_and_send_report e s) = accumulated_transcript s"
  "audio_encoding (generate_and_send_report e s) = audio_encoding s"
  "audio_sample_rate (generate_and_send_report e s) = audio_sample_rate s"
  "last_question_time (generate_and_send_report e s) = last_question_time s"
  "min_question_interval (generate_and_send_report e s) = min_question_interval s"
  "pending_response (generate_and_send_report e s) = pending_response s"
  "screen_share_active (generate_and_send_report e s) = screen_share_active s"
  "screen_share_lost_time (generate_and_send_report e s) = screen_share_lost_time s"
  "screen_reconnect_timeout (generate_and_send_report e s) = screen_reconnect_timeout s"
  "awaiting_screen_reshare (generate_and_send_report e s) = awaiting_screen_reshare s"
  "is_stopped (generate_and_send_report e s) = is_stopped s"
  "timers (generate_and_send_report e s) = timers s"
  "ws_open (generate_and_send_report e s) = ws_open s"
  by (simp_all add: generate_and_send_report_def Let_def split: option.splits)

lemma speak_response_ticks_le [simp]: "n \<le> ticks s \<Longrightarrow> n \<le> ticks (speak_response e txt s)"
  by (rule order_trans [OF _ less_imp_le [OF speak_response_other(2)]])

lemma generate_response_ticks_le [simp]:
  "n \<le> ticks s \<Longrightarrow> n \<le> ticks (generate_response e txt s)"
  by (auto simp add: generate_response_def Let_def split: json.splits intro!: le_SucI)

lemma finalize_transcript_obs [simp]:
  "stop_flags (trace (finalize_transcript e s)) = stop_flags (trace s)"
  "flushes (trace (finalize_transcript e s)) = flushes (trace s)"
  "summaries (trace (finalize_transcript e s)) = summaries (trace s)"
  by (simp_all add: finalize_transcript_def Let_def)

lemma finalize_transcript_ticks_le [simp]:
  "n \<le> ticks s \<Longrightarrow> n \<le> ticks (finalize_transcript e s)"
  by (auto simp add: finalize_transcript_def Let_def intro!: le_SucI)

lemma process_accumulated_audio_obs [simp]:
  "stop_flags (trace (process_accumulated_audio e s)) = stop_flags (trace s)"
  "summaries (trace (process_accumulated_audio e s)) = summaries (trace s)"
  by (simp_all add: process_accumulated_audio_def Let_def split: option.splits)

lemma process_accumulated_audio_ticks_le [simp]:
  "n \<le> ticks s \<Longrightarrow> n \<le> ticks (process_accumulated_audio e s)"
  by (auto simp add: process_accumulated_audio_def Let_def split: option.splits intro!: le_SucI)

lemma generate_and_send_report_obs [simp]:
  "stop_flags (trace (generate_and_send_report e s)) = stop_flags (trace s)"
  "flushes (trace (generate_and_send_report e s)) = flushes (trace s)"
  "evaluations (trace (generate_and_send_report e s)) = evaluations (trace s)"
  "finals (trace (generate_and_send_report e s)) = finals (trace s)"
  "summaries (trace (generate_and_send_report e s)) = summaries (trace s) @ [()]"
  by (simp_all add: generate_and_send_report_def Let_def split: option.splits)


section \<open>Pacing\<close>

text \<open>Inside the pacing window \<open>generate_response\<close> only reads the clock, whatever the
  brain would have answered.\<close>

lemma generate_response_paced:
  "0 < last_question_time s \<Longrightarrow>
   clock e (ticks s) - last_question_time s < min_question_interval s \<Longrightarrow>
   generate_response e txt s = tick s"
  by (simp add: generate_response_def Let_def)

section \<open>The names bound by Config\<close>

lemma Config_no_REPORTS_DIR: "map_of (Config os) ''REPORTS_DIR'' = None"
  by (simp add: Config_def)

section \<open>The pixel difference\<close>





section \<open>The history only grows\<close>

lemma appended_refl [simp]: "appended h c h c"
  by (simp add: appended_def)

lemma appended_snoc:
  "appended h c h' c' \<Longrightarrow> slide t = Suc c' \<Longrightarrow> appended h c (h' @ [t]) (Suc c')"
  by (auto simp add: appended_def)

lemma appended_prefix: "appended h c h' c' \<Longrightarrow> prefix h h'"
  by (auto simp add: appended_def)

lemma generate_response_appended [simp]:
  "appended h c (history s) (slide_count s) \<Longrightarrow>
   appended h c (history (generate_response e txt s)) (slide_count (generate_response e txt s))"
  by (auto simp add: generate_response_def Let_def make_turn_def split: json.splits
      intro!: appended_snoc)

lemma finalize_transcript_appended [simp]:
  "appended h c (history s) (slide_count s) \<Longrightarrow>
   appended h c (history (finalize_transcript e s)) (slide_count (finalize_transcript e s))"
  by (simp add: finalize_transcript_def Let_def)

lemma process_accumulated_audio_appended [simp]:
  "appended h c (history s) (slide_count s) \<Longrightarrow>
   appended h c (history (process_accumulated_audio e s))
     (slide_count (process_accumulated_audio e s))"
  by (simp add: process_accumulated_audio_def Let_def split: option.splits)

lemma handle_audio_chunk_appended [simp]:
  "appended h c (history s) (slide_count s) \<Longrightarrow>
   appended h c (history (handle_audio_chunk e a enc r s))
     (slide_count (handle_audio_chunk e a enc r s))"
  by (simp add: handle_audio_chunk_def Let_def split: option.splits)

lemma handle_video_frame_history [simp]:
  "history (handle_video_frame e f s) = history s"
  "slide_count (handle_video_frame e f s) = slide_count s"
  by (simp_all add: handle_video_frame_def Let_def split: option.splits prod.splits)

lemma handle_screen_share_history [simp]:
  "history (handle_screen_share_lost e s) = history s"
  "slide_count (handle_screen_share_lost e s) = slide_count s"
  "history (handle_screen_share_restored e s) = history s"
  "slide_count (handle_screen_share_restored e s) = slide_count s"
  by (simp_all add: handle_screen_share_lost_def handle_screen_share_restored_def Let_def)

lemma stop_appended [simp]:
  "appended h c (history s) (slide_count s) \<Longrightarrow>
   appended h c (history (stop e a s)) (slide_count (stop e a s))"
  by (simp add: stop_def Let_def)

lemma screen_share_timeout_checker_appended [simp]:
  "appended h c (history s) (slide_count s) \<Longrightarrow>
   appended h c (history (screen_share_timeout_checker e s))
     (slide_count (screen_share_timeout_checker e s))"
  by (simp add: screen_share_timeout_checker_def Let_def)

lemma generate_report_on_demand_history [simp]:
  "history (generate_report_on_demand e s) = history s"
  "slide_count (generate_report_on_demand e s) = slide_count s"
  by (simp_all add: generate_report_on_demand_def)

lemma receive_appended:
  "appended h c (history s) (slide_count s) \<Longrightarrow>
   appended h c (history (receive e m s)) (slide_count (receive e m s))"
  by (cases m) (simp_all add: Let_def)

lemma on_event_appended:
  "appended h c (history s) (slide_count s) \<Longrightarrow>
   appended h c (history (on_event e m s)) (slide_count (on_event e m s))"
  by (simp add: on_event_def receive_appended)

lemma run_appended:
  "appended h c (history s) (slide_count s) \<Longrightarrow>
   appended h c (history (foldl (\<lambda>s m. on_event e m s) s ms))
     (slide_count (foldl (\<lambda>s m. on_event e m s) s ms))"
  by (induction ms arbitrary: s) (simp_all add: on_event_appended)

lemma start_history [simp]:
  "history (start e s) = history s" "slide_count (start e s) = slide_count s"
  by (simp_all add: start_def Let_def)

lemma websocket_interview_appended:
  "appended [] 0 (history (websocket_interview e thr ival ms))
     (slide_count (websocket_interview e thr ival ms))"
  unfolding websocket_interview_def
  by (rule run_appended) (simp add: InterviewSession_init_def)

section \<open>Words, stripping and finalization\<close>

lemma split_acc_all_space: "\<forall>c \<in> set s. is_space c \<Longrightarrow> split_acc s [] = []"
  by (induction s) simp_all

lemma py_split_strip: "py_split s \<noteq> [] \<Longrightarrow> py_strip s \<noteq> []"
proof -
  assume "py_split s \<noteq> []"
  then have "\<not> (\<forall>c \<in> set s. is_space c)"
    using split_acc_all_space [of s] by (auto simp add: py_split_def)
  then have ne: "dropWhile is_space s \<noteq> []"
    by (simp add: dropWhile_eq_Nil_conv)
  then have "\<not> is_space (hd (dropWhile is_space s))"
    by (rule hd_dropWhile)
  with ne have "\<exists>c \<in> set (rev (dropWhile is_space s)). \<not> is_space c"
    by (metis hd_in_set set_rev)
  then have "dropWhile is_space (rev (dropWhile is_space s)) \<noteq> []"
    by (simp add: dropWhile_eq_Nil_conv)
  then show ?thesis by (simp add: py_strip_def)
qed

lemma py_strip_Nil [simp]: "py_strip [] = []"
  by (simp add: py_strip_def)

lemma generate_response_evaluations:
  "evaluations (trace (generate_response e txt s)) = evaluations (trace s)
   \<or> evaluations (trace (generate_response e txt s)) = evaluations (trace s) @ [txt]"
  by (simp add: generate_response_def Let_def split: json.splits)

lemma finalize_transcript_empty:
  "accumulated_transcript s = [] \<Longrightarrow> finalize_transcript e s = s"
  by (simp add: finalize_transcript_def)

section \<open>The transcription buffer\<close>

lemma process_accumulated_audio_flush:
  assumes "audio_chunks s \<noteq> []"
  shows "last_transcript_time (process_accumulated_audio e s) = clock e (ticks s)"
    and "Suc (ticks s) \<le> ticks (process_accumulated_audio e s)"
    and "flushes (trace (process_accumulated_audio e s)) =
           flushes (trace s) @
             (if length (concat (audio_chunks s)) < 16000 then []
              else [(clock e (ticks s), concat (audio_chunks s))])"
  using assms
  by (simp_all add: process_accumulated_audio_def Let_def split: option.splits)

lemma flush_inv_process:
  assumes m: "mono (clock e)" and inv: "flush_inv e s" and ne: "audio_chunks s \<noteq> []"
    and due: "last_transcript_time s + 3 \<le> clock e j" and j: "j \<le> ticks s"
  shows "flush_inv e (process_accumulated_audio e s)"
proof -
  let ?s' = "process_accumulated_audio e s"
  let ?now = "clock e (ticks s)"
  note sh = process_accumulated_audio_flush [OF ne, of e]
  from m j have "clock e j \<le> ?now" by (simp add: monoD)
  with due have late: "last_transcript_time s + 3 \<le> ?now" by simp
  from inv have old: "sorted_wrt (\<lambda>p q. fst p + 3 \<le> fst q) (flushes (trace s))"
    "\<forall>p \<in> set (flushes (trace s)). fst p \<le> last_transcript_time s \<and> 16000 \<le> length (snd p)"
    by (simp_all add: flush_inv_def)
  have "\<exists>k<ticks ?s'. last_transcript_time ?s' = clock e k"
    using sh(1) sh(2) by (intro exI [of _ "ticks s"]) simp
  moreover have "sorted_wrt (\<lambda>p q. fst p + 3 \<le> fst q) (flushes (trace ?s'))"
    using old late by (auto simp add: sh(3) sorted_wrt_append)
  moreover have "\<forall>p \<in> set (flushes (trace ?s')).
      fst p \<le> last_transcript_time ?s' \<and> 16000 \<le> length (snd p)"
    using old late by (auto simp add: sh(1) sh(3))
  ultimately show ?thesis by (simp add: flush_inv_def)
qed

lemma flush_inv_handle_audio_chunk:
  assumes m: "mono (clock e)" and inv: "flush_inv e s"
  shows "flush_inv e (handle_audio_chunk e a encoding sample_rate s)"
proof (cases "is_active s")
  case False
  with inv show ?thesis by (simp add: handle_audio_chunk_def)
next
  case True
  show ?thesis
  proof (cases a)
    case None
    with inv show ?thesis by (simp add: handle_audio_chunk_def)
  next
    case (Some audio_bytes)
    define s2 where "s2 = tick (s\<lparr>audio_chunks := audio_chunks s @ [audio_bytes],
        audio_encoding := encoding, audio_sample_rate := sample_rate\<rparr>)"
    have s2: "ticks s2 = Suc (ticks s)" "last_transcript_time s2 = last_transcript_time s"
      "trace s2 = trace s" "audio_chunks s2 \<noteq> []"
      by (simp_all add: s2_def)
    from inv have inv2: "flush_inv e s2"
      by (auto simp add: flush_inv_def s2 less_Suc_eq)
    have run: "handle_audio_chunk e a encoding sample_rate s =
        (if clock e (ticks s) - last_transcript_time s \<ge> 3
         then process_accumulated_audio e s2 else s2)"
      using True Some by (simp add: handle_audio_chunk_def Let_def s2_def)
    show ?thesis
    proof (cases "clock e (ticks s) - last_transcript_time s \<ge> 3")
      case False
      with run inv2 show ?thesis by simp
    next
      case due: True
      then have "last_transcript_time s2 + 3 \<le> clock e (ticks s)" by (simp add: s2)
      moreover have "ticks s \<le> ticks s2" by (simp add: s2)
      ultimately have "flush_inv e (process_accumulated_audio e s2)"
        using m inv2 s2(4) by (rule flush_inv_process [rotated 3])
      with run due show ?thesis by simp
    qed
  qed
qed

lemma flush_inv_start: "flush_inv e (start e (InterviewSession_init e thr ival))"
  by (auto simp add: flush_inv_def start_def InterviewSession_init_def Let_def
      intro!: exI [of _ 0])

lemma flush_inv_audio_events:
  assumes "mono (clock e)"
  shows "flush_inv e s \<Longrightarrow> \<forall>m \<in> set ms. is_audio m \<Longrightarrow>
         flush_inv e (foldl (\<lambda>s m. on_event e m s) s ms)"
proof (induction ms arbitrary: s)
  case Nil
  then show ?case by simp
next
  case (Cons m ms)
  from Cons.prems(2) obtain a encoding sample_rate where m: "m = Audio a encoding sample_rate"
    by (cases m) auto
  have "flush_inv e (on_event e m s)"
    using flush_inv_handle_audio_chunk [OF assms Cons.prems(1)]
    by (simp add: m on_event_def Cons.prems(1))
  with Cons show ?case by simp
qed

section \<open>The life cycle of a session\<close>

lemma handle_audio_chunk_flags [simp]:
  "is_active (handle_audio_chunk e a enc r s) = is_active s"
  "is_stopped (handle_audio_chunk e a enc r s) = is_stopped s"
  "awaiting_screen_reshare (handle_audio_chunk e a enc r s) = awaiting_screen_reshare s"
  "timers (handle_audio_chunk e a enc r s) = timers s"
  "stop_flags (trace (handle_audio_chunk e a enc r s)) = stop_flags (trace s)"
  "summaries (trace (handle_audio_chunk e a enc r s)) = summaries (trace s)"
  by (simp_all add: handle_audio_chunk_def Let_def split: option.splits)

lemma handle_video_frame_flags [simp]:
  "is_active (handle_video_frame e f s) = is_active s"
  "is_stopped (handle_video_frame e f s) = is_stopped s"
  "awaiting_screen_reshare (handle_video_frame e f s) = awaiting_screen_reshare s"
  "timers (handle_video_frame e f s) = timers s"
  "stop_flags (trace (handle_video_frame e f s)) = stop_flags (trace s)"
  "summaries (trace (handle_video_frame e f s)) = summaries (trace s)"
  by (simp_all add: handle_video_frame_def Let_def split: option.splits prod.splits)

lemma generate_report_on_demand_flags [simp]:
  "is_active (generate_report_on_demand e s) = is_active s"
  "is_stopped (generate_report_on_demand e s) = is_stopped s"
  "awaiting_screen_reshare (generate_report_on_demand e s) = awaiting_screen_reshare s"
  "timers (generate_report_on_demand e s) = timers s"
  "stop_flags (trace (generate_report_on_demand e s)) = stop_flags (trace s)"
  by (simp_all add: generate_report_on_demand_def)

lemma handle_screen_share_restored_flags [simp]:
  "is_active (handle_screen_share_restored e s) = is_active s"
  "is_stopped (handle_screen_share_restored e s) = is_stopped s"
  "awaiting_screen_reshare (handle_screen_share_restored e s) = False"
  "timers (handle_screen_share_restored e s) = timers s"
  "stop_flags (trace (handle_screen_share_restored e s)) = stop_flags (trace s)"
  "summaries (trace (handle_screen_share_restored e s)) = summaries (trace s)"
  by (simp_all add: handle_screen_share_restored_def Let_def)

lemma handle_screen_share_lost_flags [simp]:
  "is_active (handle_screen_share_lost e s) = is_active s"
  "is_stopped (handle_screen_share_lost e s) = is_stopped s"
  "awaiting_screen_reshare (handle_screen_share_lost e s) =
     (awaiting_screen_reshare s \<or> is_active s)"
  "timers (handle_screen_share_lost e s) =
     (if is_active s \<and> \<not> awaiting_screen_reshare s then Suc (timers s) else timers s)"
  "stop_flags (trace (handle_screen_share_lost e s)) = stop_flags (trace s)"
  "summaries (trace (handle_screen_share_lost e s)) = summaries (trace s)"
  by (auto simp add: handle_screen_share_lost_def Let_def)

lemma handlers_ws_open [simp]:
  "ws_open (handle_audio_chunk e a enc r s) = ws_open s"
  "ws_open (handle_video_frame e f s) = ws_open s"
  "ws_open (generate_report_on_demand e s) = ws_open s"
  "ws_open (handle_screen_share_restored e s) = ws_open s"
  "ws_open (handle_screen_share_lost e s) = ws_open s"
  "ws_open (stop e b s) = ws_open s"
  by (simp_all add: handle_audio_chunk_def handle_video_frame_def generate_report_on_demand_def
      handle_screen_share_restored_def handle_screen_share_lost_def stop_def Let_def
      split: option.splits prod.splits)



lemma stop_timers [simp]: "timers (stop e a s) = timers s"
  by (simp add: stop_def Let_def)











section \<open>Claim C1\<close>

text \<open>
  C1 says that a transcript in which the participant asks the interviewer a direct question
  is evaluated and answered even inside the pacing window. In \<open>generate_response\<close> the
  pacing test comes before the call of the brain: right after the opening, with a brain that
  would flag the direct question, the transcript is dropped, no evaluation is asked for and
  no turn is recorded.
\<close>

theorem C1_direct_question_dropped_inside_pacing_window:
  "truthy (dict_get
      (brain_evaluate demo_env
         (Suc (Suc (ticks (start demo_env (InterviewSession_init demo_env (1 / 10) 3)))))
         ''Should I move on to the next slide now?'' [] [])
      ''presenter_asked_question'' JNull)
   \<and> clock demo_env (ticks (start demo_env (InterviewSession_init demo_env (1 / 10) 3)))
       - last_question_time (start demo_env (InterviewSession_init demo_env (1 / 10) 3))
       < min_question_interval (start demo_env (InterviewSession_init demo_env (1 / 10) 3))
   \<and> generate_response demo_env ''Should I move on to the next slide now?''
         (start demo_env (InterviewSession_init demo_env (1 / 10) 3))
       = tick (start demo_env (InterviewSession_init demo_env (1 / 10) 3))
   \<and> evaluations (trace (generate_response demo_env ''Should I move on to the next slide now?''
         (start demo_env (InterviewSession_init demo_env (1 / 10) 3)))) = []"
  by (simp add: demo_env_def start_def InterviewSession_init_def VisionProcessor_init_def
      speak_response_def generate_response_def basic_defs dict_get_def)

section \<open>Claim C2\<close>

text \<open>
  C2 says that the stored screen-share-lost time stamp is set exactly when the session
  awaits a reshare. \<open>stop\<close> clears the flag and leaves the time stamp: after the share is
  lost and the interview is stopped, in any environment, the session no longer awaits a
  reshare and still holds the time stamp.
\<close>

theorem C2_stop_keeps_lost_time:
  "\<not> awaiting_screen_reshare (websocket_interview e thr ival [ScreenShareLost, StopMsg])
   \<and> is_stopped (websocket_interview e thr ival [ScreenShareLost, StopMsg])
   \<and> screen_share_lost_time (websocket_interview e thr ival [ScreenShareLost, StopMsg])
       \<noteq> None"
  by (simp add: websocket_interview_def on_event_def start_def InterviewSession_init_def
      handle_screen_share_lost_def stop_def py_strip_def Let_def)

section \<open>Claim C3\<close>




section \<open>Claim C4\<close>



section \<open>Claim C5\<close>

text \<open>
  C5. With a clock that never runs backwards, whatever audio chunk events a started session
  receives, any two transcription calls belong to flushes at least 3 seconds apart, and
  each call is given a buffer of at least 16000 bytes, hence never an empty one. A drained
  buffer of fewer than 16000 bytes is dropped: the buffer is emptied, the flush time is
  set, and nothing is added to the trace.
\<close>

theorem C5_transcription_buffer:
  assumes "mono (clock e)" and "\<forall>m \<in> set ms. is_audio m"
  shows "sorted_wrt (\<lambda>p q. fst p + 3 \<le> fst q)
           (flushes (trace (websocket_interview e thr ival ms)))
       \<and> (\<forall>p \<in> set (flushes (trace (websocket_interview e thr ival ms))).
             16000 \<le> length (snd p) \<and> snd p \<noteq> [])
       \<and> (audio_chunks s \<noteq> [] \<and> length (concat (audio_chunks s)) < 16000 \<longrightarrow>
             process_accumulated_audio e s =
               tick (s\<lparr>audio_chunks := [], last_transcript_time := clock e (ticks s)\<rparr>))"
proof -
  have "flush_inv e (websocket_interview e thr ival ms)"
    unfolding websocket_interview_def
    using assms(1) flush_inv_start assms(2) by (rule flush_inv_audio_events)
  then have "sorted_wrt (\<lambda>p q. fst p + 3 \<le> fst q)
           (flushes (trace (websocket_interview e thr ival ms)))"
    and "\<forall>p \<in> set (flushes (trace (websocket_interview e thr ival ms))).
             16000 \<le> length (snd p) \<and> snd p \<noteq> []"
    by (auto simp add: flush_inv_def)
  moreover have "audio_chunks s \<noteq> [] \<and> length (concat (audio_chunks s)) < 16000 \<longrightarrow>
             process_accumulated_audio e s =
               tick (s\<lparr>audio_chunks := [], last_transcript_time := clock e (ticks s)\<rparr>)"
    by (simp add: process_accumulated_audio_def Let_def)
  ultimately show ?thesis by blast
qed

theorem C5_transcription_buffer_witness:
  "mono (clock demo_env)
   \<and> list_all is_audio [Audio (Some (replicate 16000 0)) ''linear16'' 16000,
                        Audio (Some [1, 2]) ''linear16'' 16000]
   \<and> flushes (trace (websocket_interview demo_env (1 / 10) 3
         [Audio (Some (replicate 16000 0)) ''linear16'' 16000,
          Audio (Some [1, 2]) ''linear16'' 16000]))
       = [(1011, replicate 16000 0)]
   \<and> sorted_wrt (\<lambda>p q. fst p + 3 \<le> fst q)
         (flushes (trace (websocket_interview demo_env (1 / 10) 3
            [Audio (Some (replicate 16000 0)) ''linear16'' 16000,
             Audio (Some [1, 2]) ''linear16'' 16000])))
   \<and> list_all (\<lambda>p. 16000 \<le> length (snd p) \<and> snd p \<noteq> [])
         (flushes (trace (websocket_interview demo_env (1 / 10) 3
            [Audio (Some (replicate 16000 0)) ''linear16'' 16000,
             Audio (Some [1, 2]) ''linear16'' 16000])))"
proof -
  have m: "mono (clock demo_env)"
    by (simp add: mono_def demo_env_def)
  have a: "\<forall>m \<in> set [Audio (Some (replicate 16000 0)) ''linear16'' 16000,
                   Audio (Some [1, 2]) ''linear16'' 16000]. is_audio m"
    by simp
  have run: "flushes (trace (websocket_interview demo_env (1 / 10) 3
         [Audio (Some (replicate 16000 0)) ''linear16'' 16000,
          Audio (Some [1, 2]) ''linear16'' 16000]))
       = [(1011, replicate 16000 0)]"
    by (simp add: websocket_interview_def on_event_def handle_audio_chunk_def
        process_accumulated_audio_def finalize_transcript_def generate_response_def
        start_def InterviewSession_init_def speak_response_def basic_defs demo_env_def
        py_split_def py_strip_def is_space_def)
  from C5_transcription_buffer [OF m a, where thr = "1 / 10" and ival = 3] m run
  show ?thesis by (simp add: list_all_iff)
qed

section \<open>Claim C6\<close>

text \<open>
  C6. When a flush yields a transcription result, it is joined to the accumulator with a
  space, and the accumulator is finalized exactly when it then has at least 8 words: the
  finalized text \<open>transcript_final\<close> is sent then and only then. On finalization the
  accumulator is emptied before \<open>generate_response\<close> is entered, the text reaches the brain
  at most once, and finalizing again right away does nothing. Below the threshold the
  accumulator keeps the joined text and nothing reaches the brain.
\<close>

theorem C6_finalization_at_eight_words:
  assumes "audio_chunks s \<noteq> []"
    and "16000 \<le> length (concat (audio_chunks s))"
    and "transcribe_audio_chunk e (Suc (ticks s)) (concat (audio_chunks s))
           (audio_encoding s) (audio_sample_rate s) = Some t"
    and "t \<noteq> []"
  shows "finals (trace (process_accumulated_audio e s)) =
           finals (trace s) @
             (if 8 \<le> length (py_split (accumulated_transcript s @ '' '' @ t))
              then [py_strip (accumulated_transcript s @ '' '' @ t)] else [])
       \<and> accumulated_transcript (process_accumulated_audio e s) =
           (if 8 \<le> length (py_split (accumulated_transcript s @ '' '' @ t))
            then [] else accumulated_transcript s @ '' '' @ t)
       \<and> (evaluations (trace (process_accumulated_audio e s)) = evaluations (trace s)
          \<or> 8 \<le> length (py_split (accumulated_transcript s @ '' '' @ t))
            \<and> evaluations (trace (process_accumulated_audio e s)) =
                evaluations (trace s) @ [py_strip (accumulated_transcript s @ '' '' @ t)])
       \<and> (8 \<le> length (py_split (accumulated_transcript s @ '' '' @ t)) \<longrightarrow>
            (\<exists>x. accumulated_transcript x = []
                \<and> process_accumulated_audio e s =
                    generate_response e (py_strip (accumulated_transcript s @ '' '' @ t)) x)
            \<and> finalize_transcript e (process_accumulated_audio e s) =
                process_accumulated_audio e s)"
proof -
  define acc where "acc = accumulated_transcript s @ '' '' @ t"
  define s4 where "s4 =
    (send_event ''transcript_interim'' t
       (emit (TranscribeCall (clock e (ticks s)) (concat (audio_chunks s)))
          (tick (tick (s\<lparr>audio_chunks := [], last_transcript_time := clock e (ticks s)\<rparr>)))))
      \<lparr>accumulated_transcript := acc\<rparr>"
  have s4: "accumulated_transcript s4 = acc" "finals (trace s4) = finals (trace s)"
    "evaluations (trace s4) = evaluations (trace s)"
    by (simp_all add: s4_def)
  have run: "process_accumulated_audio e s =
      (if 8 \<le> length (py_split acc) then finalize_transcript e s4 else s4)"
    using assms by (simp add: process_accumulated_audio_def Let_def s4_def acc_def)
  show ?thesis
  proof (cases "8 \<le> length (py_split acc)")
    case False
    with run s4 show ?thesis by (simp add: acc_def)
  next
    case True
    then have "py_split acc \<noteq> []" by auto
    then have strip: "py_strip acc \<noteq> []" by (rule py_split_strip)
    define x where "x = send_event ''transcript_final'' (py_strip acc)
                          (s4\<lparr>accumulated_transcript := []\<rparr>)"
    have x: "accumulated_transcript x = []"
      "finals (trace x) = finals (trace s) @ [py_strip acc]"
      "evaluations (trace x) = evaluations (trace s)"
      using s4 by (simp_all add: x_def)
    have fin: "process_accumulated_audio e s = generate_response e (py_strip acc) x"
      using run True strip s4 by (simp add: finalize_transcript_def Let_def x_def)
    have again: "finalize_transcript e (process_accumulated_audio e s) =
        process_accumulated_audio e s"
      by (rule finalize_transcript_empty) (simp add: fin x)
    from generate_response_evaluations [of e "py_strip acc" x]
    have ev: "evaluations (trace (process_accumulated_audio e s)) = evaluations (trace s)
       \<or> evaluations (trace (process_accumulated_audio e s)) =
           evaluations (trace s) @ [py_strip acc]"
      by (simp add: fin x)
    have "\<exists>x. accumulated_transcript x = []
        \<and> process_accumulated_audio e s = generate_response e (py_strip acc) x"
      using x(1) fin by blast
    with True fin x again ev show ?thesis
      unfolding acc_def [symmetric] by simp
  qed
qed

theorem C6_finalization_at_eight_words_witness:
  "audio_chunks demo_flush \<noteq> []
   \<and> 16000 \<le> length (concat (audio_chunks demo_flush))
   \<and> transcribe_audio_chunk demo_env (Suc (ticks demo_flush)) (concat (audio_chunks demo_flush))
        (audio_encoding demo_flush) (audio_sample_rate demo_flush)
      = Some ''so this slide shows the overall system design now''
   \<and> finals (trace (process_accumulated_audio demo_env demo_flush)) =
       [''so this slide shows the overall system design now'']
   \<and> accumulated_transcript (process_accumulated_audio demo_env demo_flush) = []"
proof -
  have chunks: "audio_chunks demo_flush = [replicate 16000 0]"
    and acc: "accumulated_transcript demo_flush = []"
    and tr: "finals (trace demo_flush) = []"
    by (simp_all add: demo_flush_def start_def InterviewSession_init_def Let_def)
  have a: "audio_chunks demo_flush \<noteq> []" by (simp add: chunks)
  have b: "16000 \<le> length (concat (audio_chunks demo_flush))" by (simp add: chunks)
  have c: "transcribe_audio_chunk demo_env (Suc (ticks demo_flush))
        (concat (audio_chunks demo_flush)) (audio_encoding demo_flush)
        (audio_sample_rate demo_flush)
      = Some ''so this slide shows the overall system design now''"
    by (simp add: demo_env_def)
  have d: "''so this slide shows the overall system design now'' \<noteq> []" by simp
  have words: "length (py_split ('' '' @ ''so this slide shows the overall system design now'')) = 9"
    by (simp add: py_split_def is_space_def)
  have strip: "py_strip ('' '' @ ''so this slide shows the overall system design now'')
      = ''so this slide shows the overall system design now''"
    by (simp add: py_strip_def is_space_def)
  from C6_finalization_at_eight_words [OF a b c d] words strip acc tr a b c
  show ?thesis by simp
qed

section \<open>Claim C7\<close>



section \<open>Claim C8\<close>

text \<open>
  C8. After any sequence of events the slide numbers of the history are 1, 2, ..., its
  length, in this order, so each turn carries one plus the number of turns appended before
  it and the numbers increase strictly; the slide counter is the length of the history;
  and whatever the session is, serving one more event leaves the history it had as a
  prefix of the new one: nothing is removed, reordered or rewritten.
\<close>

theorem C8_history_append_only_numbered:
  "map slide (history (websocket_interview e thr ival ms)) =
     [1..<Suc (length (history (websocket_interview e thr ival ms)))]
   \<and> slide_count (websocket_interview e thr ival ms) =
       length (history (websocket_interview e thr ival ms))
   \<and> sorted_wrt (<) (map slide (history (websocket_interview e thr ival ms)))
   \<and> prefix (history s) (history (on_event e m s))"
proof -
  from websocket_interview_appended [of e thr ival ms]
  have a: "map slide (history (websocket_interview e thr ival ms)) =
       [1..<Suc (length (history (websocket_interview e thr ival ms)))]"
    and b: "slide_count (websocket_interview e thr ival ms) =
       length (history (websocket_interview e thr ival ms))"
    by (auto simp add: appended_def)
  have c: "sorted_wrt (<) (map slide (history (websocket_interview e thr ival ms)))"
    by (subst a) (rule sorted_wrt_upt)
  have d: "prefix (history s) (history (on_event e m s))"
    by (rule appended_prefix [OF on_event_appended [OF appended_refl]])
  from a b c d show ?thesis by blast
qed

section \<open>Claim C10\<close>

text \<open>
  C10. Constructing \<open>PDFReportGenerator\<close> with the default \<open>reports_dir\<close> raises
  \<open>AttributeError\<close> for \<open>REPORTS_DIR\<close>, whatever the environment and the file system are,
  because \<open>Config\<close> binds no such name; and since \<open>server.py\<close> constructs it at module scope,
  importing the server module never succeeds.
\<close>

theorem C10_default_reports_dir_raises:
  "PDFReportGenerator_init os mkdir_ok None = Inl (AttributeError ''REPORTS_DIR'')
   \<and> isl (import_server os imports_ok mkdir_ok)"
  by (simp add: PDFReportGenerator_init_def import_server_def getattr_def
      Config_no_REPORTS_DIR)

end
